theory Spec2Isabelle
  imports Complex_Main
begin

section \<open>Values of the host language\<close>

text \<open>
  The write and read services of the two resource families (\<open>auto\<close> and \<open>buch\<close>) are the
  same code up to the names of the attributes: \<open>modell\<close>/\<open>titel\<close> is the natural key and
  \<open>modellnr\<close>/\<open>isbn\<close> the external identifier. The development follows
  \<open>auto-write.service.ts\<close>, \<open>auto-read.service.ts\<close>, the \<open>auto\<close> entity and the REST and
  GraphQL entry points of the family, and keeps their names.

  A JavaScript number that holds a version is either \<open>NaN\<close> or an integer. Integers are
  mathematical integers here: the rounding of doubles beyond \<open>2^53\<close> is not part of the
  model.
\<close>

datatype number = NaN | Num int

text \<open>The comparison \<open>version < versionDb\<close>: every comparison with \<open>NaN\<close> is false.\<close>

fun number_less :: "number \<Rightarrow> int \<Rightarrow> bool" where
  "number_less NaN b = False"
| "number_less (Num a) b = (a < b)"

abbreviation DQUOTE :: char where
  "DQUOTE \<equiv> CHR 0x22"

definition isDigit :: "char \<Rightarrow> bool" where
  "isDigit c = (c \<in> set ''0123456789'')"

definition isHexDigit :: "char \<Rightarrow> bool" where
  "isHexDigit c = (c \<in> set ''0123456789abcdefABCDEF'')"

text \<open>The white space that \<open>parseInt\<close> skips, as far as it is ASCII.\<close>

definition isWhiteSpace :: "char \<Rightarrow> bool" where
  "isWhiteSpace c = (c \<in> {CHR 0x20, CHR 0x09, CHR 0x0A, CHR 0x0B, CHR 0x0C, CHR 0x0D})"

definition digitVal :: "char \<Rightarrow> nat" where
  "digitVal c = of_char c - 48"

definition digitsToNat :: "string \<Rightarrow> nat" where
  "digitsToNat ds = foldl (\<lambda>acc c. 10 * acc + digitVal c) 0 ds"

text \<open>
  \<open>Number.parseInt(s, 10)\<close>: leading white space and one sign are skipped, the longest
  prefix of decimal digits is read, and the result is \<open>NaN\<close> when that prefix is empty.
\<close>

definition parseInt :: "string \<Rightarrow> number" where
  "parseInt s =
     (let t = dropWhile isWhiteSpace s;
          neg = (case t of [] \<Rightarrow> False | c # _ \<Rightarrow> c = CHR ''-'');
          u = (case t of [] \<Rightarrow> [] | c # r \<Rightarrow> if c = CHR ''-'' \<or> c = CHR ''+'' then r else t);
          ds = takeWhile isDigit u
      in if ds = [] then NaN
         else Num (if neg then - int (digitsToNat ds) else int (digitsToNat ds)))"

text \<open>\<open>s.slice(1, -1)\<close>: the string without its first and its last character.\<close>

definition slice_1_m1 :: "string \<Rightarrow> string" where
  "slice_1_m1 s = butlast (tl s)"

function showNat :: "nat \<Rightarrow> string" where
  "showNat n =
     (if n < 10 then [char_of (48 + n)]
      else showNat (n div 10) @ [char_of (48 + n mod 10)])"
  by pat_completeness auto
termination
  by (relation "measure (\<lambda>n. n)") auto

text \<open>\<open>toString()\<close> of an integer, and of a number.\<close>

definition showInt :: "int \<Rightarrow> string" where
  "showInt i = (if i < 0 then CHR ''-'' # showNat (nat (- i)) else showNat (nat i))"

fun number_toString :: "number \<Rightarrow> string" where
  "number_toString NaN = ''NaN''"
| "number_toString (Num i) = showInt i"

section \<open>Identifiers\<close>

text \<open>
  \<open>ObjectID.isValid\<close> belongs to the \<open>bson\<close> library, which is not among the sources. An
  identifier is a 12 byte value, and the library accepts a string in two forms: the 24
  hexadecimal digits of the value, and the 12 bytes themselves, that is any string of 12
  characters. The spec names the first form only. Strings are strings of bytes here.
\<close>

definition ObjectID_isValid :: "string \<Rightarrow> bool" where
  "ObjectID_isValid s = (length s = 12 \<or> (length s = 24 \<and> list_all isHexDigit s))"

definition toLowerHex :: "char \<Rightarrow> char" where
  "toLowerHex c =
     (case map_of (zip ''ABCDEF'' ''abcdef'') c of None \<Rightarrow> c | Some l \<Rightarrow> l)"

text \<open>The two hexadecimal digits of a byte.\<close>

definition hexByte :: "char \<Rightarrow> string" where
  "hexByte c =
     [''0123456789abcdef'' ! (of_char c div 16), ''0123456789abcdef'' ! (of_char c mod 16)]"

text \<open>
  \<open>new ObjectID(id)\<close>, written as the string that \<open>toString()\<close> gives back: the hexadecimal
  digits in lower case, of the 12 bytes when the string has 12 characters.
\<close>

definition ObjectID :: "string \<Rightarrow> string" where
  "ObjectID s = (if length s = 12 then concat (map hexByte s) else map toLowerHex s)"

section \<open>The version token\<close>

text \<open>
  \<open>VERSION_PATTERN\<close> is the regular expression \<open>^"\d*"\<close>: a double quote, any number of
  digits, a double quote. It is anchored at the start only.
\<close>

definition VERSION_PATTERN_test :: "string \<Rightarrow> bool" where
  "VERSION_PATTERN_test s =
     (case s of
        [] \<Rightarrow> False
      | c # cs \<Rightarrow> c = DQUOTE \<and>
          (case dropWhile isDigit cs of [] \<Rightarrow> False | d # _ \<Rightarrow> d = DQUOTE))"

section \<open>The entity and the collection\<close>

text \<open>
  The class \<open>Auto\<close>. A property that is absent is \<open>None\<close>. The version key \<open>__v\<close> is not a
  field of the class, but the JSON schema of the family admits it in a payload and the
  update hook below looks for it, so the record carries it (as \<open>dunder_v\<close>). The
  property \<open>typ\<close> is \<open>auto_typ\<close>.
\<close>

record auto =
  modell :: "string option"
  verbrauch :: "real option"
  auto_typ :: "string option"
  marke :: "string option"
  preis :: "real option"
  rabatt :: "real option"
  lieferbar :: "bool option"
  datum :: "string option"
  modellnr :: "string option"
  homepage :: "string option"
  herstellorte :: "string list option"
  dunder_v :: "int option"

text \<open>\<open>AutoDocument\<close>: the properties together with \<open>_id\<close>, in its string form.\<close>

record auto_document =
  doc_id :: string
  props :: auto

text \<open>The collection, in insertion order.\<close>

type_synonym collection = "auto_document list"

text \<open>\<open>autoDb.__v ?? 0\<close>\<close>

definition versionDb :: "auto_document \<Rightarrow> int" where
  "versionDb autoDb = (case dunder_v (props autoDb) of None \<Rightarrow> 0 | Some n \<Rightarrow> n)"

subsection \<open>Queries of the model class\<close>

text \<open>
  The calls on \<open>Model<AutoDocument>\<close> that the services make. An identifier handed to the
  model is cast to an \<open>ObjectID\<close>; every such call of the services is behind the
  \<open>ObjectID.isValid\<close> guard. Faults of the database connection are not part of the model.
\<close>

definition exists_modell :: "string option \<Rightarrow> collection \<Rightarrow> bool" where
  "exists_modell m db = list_ex (\<lambda>d. modell (props d) = m) db"

definition exists_modellnr :: "string option \<Rightarrow> collection \<Rightarrow> bool" where
  "exists_modellnr nr db = list_ex (\<lambda>d. modellnr (props d) = nr) db"

definition findOne_modell :: "string option \<Rightarrow> collection \<Rightarrow> auto_document option" where
  "findOne_modell m db = find (\<lambda>d. modell (props d) = m) db"

definition model_findById :: "string \<Rightarrow> collection \<Rightarrow> auto_document option" where
  "model_findById i db = find (\<lambda>d. doc_id d = ObjectID i) db"

fun removeById :: "string \<Rightarrow> collection \<Rightarrow> collection" where
  "removeById i [] = []"
| "removeById i (d # ds) = (if doc_id d = i then ds else d # removeById i ds)"

fun replaceById :: "string \<Rightarrow> auto_document \<Rightarrow> collection \<Rightarrow> collection" where
  "replaceById i d' [] = []"
| "replaceById i d' (d # ds) = (if doc_id d = i then d' # ds else d # replaceById i d' ds)"

definition findByIdAndDelete :: "string \<Rightarrow> collection \<Rightarrow> auto_document option \<times> collection" where
  "findByIdAndDelete i db =
     (case model_findById i db of
        None \<Rightarrow> (None, db)
      | Some d \<Rightarrow> (Some d, removeById (ObjectID i) db))"

text \<open>
  Modelled from the spec: \<open>new this.#autoModel(auto)\<close> followed by \<open>save()\<close> is carried out
  by the model class, which is not among the sources. The spec has the new resource
  persisted with version 0: the document receives the generated identifier and is inserted
  with the version key set to 0, whatever the candidate carried. The identifier is
  generated by the driver; it is an argument here.
\<close>

definition save :: "string \<Rightarrow> auto \<Rightarrow> collection \<Rightarrow> auto_document \<times> collection" where
  "save newId a db =
     (let saved = \<lparr>doc_id = newId, props = a\<lparr>dunder_v := Some 0\<rparr>\<rparr>
      in (saved, db @ [saved]))"

subsection \<open>The update hooks\<close>

text \<open>
  The update object of a \<open>findOneAndUpdate\<close> query: the plain properties at the top, the
  operators \<open>$set\<close> and \<open>$setOnInsert\<close> (absent, or an object with perhaps a \<open>__v\<close> entry and
  a number of other entries), and the \<open>__v\<close> entry of \<open>$inc\<close>.
\<close>

record op_part =
  op_v :: "int option"
  op_others :: nat

record update_query =
  uq_top :: auto
  uq_set :: "op_part option"
  uq_setOnInsert :: "op_part option"
  uq_inc_v :: "int option"

datatype js_exn = TypeError | MongoServerError

text \<open>
  \<open>MONGOOSE_OPTIONS\<close> has \<open>timestamps: true\<close>: the hook that the schema registers for it runs
  before the plugin and puts \<open>updatedAt\<close> under \<open>$set\<close> and \<open>createdAt\<close> under
  \<open>$setOnInsert\<close>. The hook is the library's; only the number of entries it adds matters
  to the plugin.
\<close>

definition add_timestamp :: "op_part option \<Rightarrow> op_part option" where
  "add_timestamp part =
     (case part of
        None \<Rightarrow> Some \<lparr>op_v = None, op_others = 1\<rparr>
      | Some p \<Rightarrow> Some (p\<lparr>op_others := op_others p + 1\<rparr>))"

definition setTimestampsOnUpdate :: "update_query \<Rightarrow> update_query" where
  "setTimestampsOnUpdate q =
     q\<lparr>uq_set := add_timestamp (uq_set q), uq_setOnInsert := add_timestamp (uq_setOnInsert q)\<rparr>"

text \<open>
  One round of the loop over \<open>$set\<close> and \<open>$setOnInsert\<close> in \<open>optimistic\<close>. The test
  \<open>updateKey?.__v !== null\<close> holds for an absent operator as well, and \<open>delete updateKey.__v\<close>
  then raises a \<open>TypeError\<close>. Otherwise \<open>__v\<close> is deleted, and the operator with it when
  nothing else is left. A version key is a number or absent (the JSON schema of the family
  asks for a number), so the comparison with \<open>null\<close> never fails here.
\<close>

definition optimistic_key :: "op_part option \<Rightarrow> js_exn + op_part option" where
  "optimistic_key updateKey =
     (case updateKey of
        None \<Rightarrow> Inl TypeError
      | Some p \<Rightarrow> if op_others p = 0 then Inr None else Inr (Some (p\<lparr>op_v := None\<rparr>)))"

text \<open>
  The plugin \<open>optimistic\<close>, the \<open>pre\<close> hook of \<open>findOneAndUpdate\<close>; the argument is the result
  of \<open>getUpdate()\<close>.
\<close>

definition optimistic :: "update_query option \<Rightarrow> js_exn + update_query option" where
  "optimistic update =
     (case update of
        None \<Rightarrow> Inr None
      | Some q \<Rightarrow>
          (case optimistic_key (uq_set q) of
             Inl e \<Rightarrow> Inl e
           | Inr s \<Rightarrow>
               (case optimistic_key (uq_setOnInsert q) of
                  Inl e \<Rightarrow> Inl e
                | Inr soi \<Rightarrow>
                    Inr (Some \<lparr>uq_top = (uq_top q)\<lparr>dunder_v := None\<rparr>,
                               uq_set = s, uq_setOnInsert = soi, uq_inc_v = Some 1\<rparr>))))"

definition orElse :: "'a option \<Rightarrow> 'a option \<Rightarrow> 'a option" where
  "orElse new old = (case new of None \<Rightarrow> old | Some x \<Rightarrow> Some x)"

text \<open>
  Modelled from the spec: the database's own application of an update object to the
  document found is not among the sources. The spec has the whole record replaced: the
  fields of the stored resource become the candidate's, a field that the candidate does not
  supply is cleared, the external identifier is retained (the schema declares \<open>modellnr\<close>
  with \<open>immutable: true\<close>), and the version is incremented atomically. So the properties of
  the document become the plain properties of the update, except \<open>modellnr\<close>, which stays;
  \<open>$inc\<close> adds to the version key, counting a missing one as 0. Setting and incrementing
  the same path in one update is refused by the database.
\<close>

definition applyUpdate :: "update_query \<Rightarrow> auto_document \<Rightarrow> js_exn + auto_document" where
  "applyUpdate q d =
     (let top = uq_top q;
          old = props d;
          set_v = orElse (dunder_v top) (case uq_set q of None \<Rightarrow> None | Some p \<Rightarrow> op_v p)
      in if set_v \<noteq> None \<and> uq_inc_v q \<noteq> None then Inl MongoServerError
         else Inr (d\<lparr>props :=
           top\<lparr>modellnr := modellnr old,
               dunder_v :=
                 (case uq_inc_v q of
                    None \<Rightarrow> orElse set_v (dunder_v old)
                  | Some k \<Rightarrow> Some (versionDb d + k))\<rparr>\<rparr>))"

text \<open>
  \<open>findByIdAndUpdate(id, auto, {new: true})\<close>: the hooks run on the update object, then the
  document is looked up and changed; the result is the document after the change, or
  \<open>None\<close> when there is none with this identifier.
\<close>

definition findByIdAndUpdate ::
  "string \<Rightarrow> auto \<Rightarrow> collection \<Rightarrow> js_exn + (auto_document option \<times> collection)" where
  "findByIdAndUpdate i a db =
     (case optimistic (Some (setTimestampsOnUpdate
              \<lparr>uq_top = a, uq_set = None, uq_setOnInsert = None, uq_inc_v = None\<rparr>)) of
        Inl e \<Rightarrow> Inl e
      | Inr None \<Rightarrow> Inr (model_findById i db, db)
      | Inr (Some q) \<Rightarrow>
          (case model_findById i db of
             None \<Rightarrow> Inr (None, db)
           | Some d \<Rightarrow>
               (case applyUpdate q d of
                  Inl e \<Rightarrow> Inl e
                | Inr d' \<Rightarrow> Inr (Some d', replaceById (ObjectID i) d' db))))"

section \<open>The write service\<close>

text \<open>The subclasses of \<open>AutoServiceError\<close> that the write service returns.\<close>

datatype AutoServiceError =
    AutoInvalid "string list"
  | ModellExists "string option" "string option"
  | ModellNrExists "string option" "string option"
  | VersionInvalid "string option"
  | VersionOutdated string number
  | AutoNotExists string

text \<open>
  What a call of the service ends with: an error object that is returned, a value that is
  returned, or an exception.
\<close>

datatype 'a outcome = Failed AutoServiceError | Returned 'a | Thrown js_exn

text \<open>The property \<open>id\<close> of an error object, where the class has one.\<close>

fun error_id :: "AutoServiceError \<Rightarrow> string option" where
  "error_id (ModellExists m i) = i"
| "error_id (ModellNrExists nr i) = i"
| "error_id (VersionOutdated i v) = Some i"
| "error_id (AutoNotExists i) = Some i"
| "error_id e = None"

text \<open>
  \<open>AutoValidationService.validate\<close> is not among the sources at hand. It is the argument
  \<open>validate\<close> of the functions below, from a candidate to its list of messages.
\<close>

definition validateCreate ::
  "(auto \<Rightarrow> string list) \<Rightarrow> auto \<Rightarrow> collection \<Rightarrow> AutoServiceError option" where
  "validateCreate validate a db =
     (let msg = validate a
      in if length msg > 0 then Some (AutoInvalid msg)
         else if exists_modell (modell a) db then Some (ModellExists (modell a) None)
         else if exists_modellnr (modellnr a) db then Some (ModellNrExists (modellnr a) None)
         else None)"

text \<open>
  \<open>create\<close>. The mail that is sent after the insertion has no effect on the collection or on
  the result and is left out.
\<close>

definition create ::
  "(auto \<Rightarrow> string list) \<Rightarrow> string \<Rightarrow> auto \<Rightarrow> collection \<Rightarrow> string outcome \<times> collection" where
  "create validate newId a db =
     (case validateCreate validate a db of
        Some e \<Rightarrow> (Failed e, db)
      | None \<Rightarrow> (case save newId a db of (saved, db') \<Rightarrow> (Returned (doc_id saved), db')))"

definition validateVersion :: "string option \<Rightarrow> AutoServiceError + number" where
  "validateVersion versionStr =
     (case versionStr of
        None \<Rightarrow> Inl (VersionInvalid None)
      | Some s \<Rightarrow>
          if \<not> VERSION_PATTERN_test s then Inl (VersionInvalid (Some s))
          else Inr (parseInt (slice_1_m1 s)))"

definition checkModellExists :: "auto \<Rightarrow> collection \<Rightarrow> AutoServiceError option" where
  "checkModellExists a db =
     (case findOne_modell (modell a) db of
        Some result \<Rightarrow> Some (ModellExists (modell a) (Some (doc_id result)))
      | None \<Rightarrow> None)"

definition checkIdAndVersion :: "string \<Rightarrow> number \<Rightarrow> collection \<Rightarrow> AutoServiceError option" where
  "checkIdAndVersion i version db =
     (case model_findById i db of
        None \<Rightarrow> Some (AutoNotExists i)
      | Some autoDb \<Rightarrow>
          if number_less version (versionDb autoDb) then Some (VersionOutdated i version)
          else None)"

definition validateUpdate ::
  "(auto \<Rightarrow> string list) \<Rightarrow> auto \<Rightarrow> string \<Rightarrow> string option \<Rightarrow> collection
     \<Rightarrow> AutoServiceError option" where
  "validateUpdate validate a i versionStr db =
     (case validateVersion versionStr of
        Inl e \<Rightarrow> Some e
      | Inr version \<Rightarrow>
          (let validationMsg = validate a
           in if length validationMsg > 0 then Some (AutoInvalid validationMsg)
              else
                (case checkModellExists a db of
                   Some resultModell \<Rightarrow>
                     if error_id resultModell \<noteq> Some i then Some resultModell
                     else checkIdAndVersion i version db
                 | None \<Rightarrow> checkIdAndVersion i version db)))"

text \<open>
  \<open>update\<close>. The parameter \<open>version\<close> is declared a string, but \<open>#validateVersion\<close> handles
  \<open>undefined\<close> as well, so it is an option here. The result is \<open>updated.__v\<close>.
\<close>

definition update ::
  "(auto \<Rightarrow> string list) \<Rightarrow> string \<Rightarrow> auto \<Rightarrow> string option \<Rightarrow> collection
     \<Rightarrow> int option outcome \<times> collection" where
  "update validate i a version db =
     (if \<not> ObjectID_isValid i then (Failed (AutoNotExists i), db)
      else
        (case validateUpdate validate a i version db of
           Some e \<Rightarrow> (Failed e, db)
         | None \<Rightarrow>
             (case findByIdAndUpdate i a db of
                Inl x \<Rightarrow> (Thrown x, db)
              | Inr (None, db') \<Rightarrow> (Failed (AutoNotExists i), db')
              | Inr (Some updated, db') \<Rightarrow> (Returned (dunder_v (props updated)), db'))))"

text \<open>\<open>delete\<close> of the write service.\<close>

definition delete :: "string \<Rightarrow> collection \<Rightarrow> bool \<times> collection" where
  "delete idStr db =
     (if \<not> ObjectID_isValid idStr then (False, db)
      else (case findByIdAndDelete idStr db of (deleted, db') \<Rightarrow> (deleted \<noteq> None, db')))"

section \<open>The entry points\<close>

subsection \<open>REST\<close>

datatype response_body = NoBody | Text string | Messages "string list"

record response =
  res_status :: nat
  res_contentType :: "string option"
  res_etag :: "string option"
  res_body :: response_body

definition PRECONDITION_REQUIRED :: nat where "PRECONDITION_REQUIRED = 428"
definition PRECONDITION_FAILED :: nat where "PRECONDITION_FAILED = 412"
definition BAD_REQUEST :: nat where "BAD_REQUEST = 400"
definition NO_CONTENT :: nat where "NO_CONTENT = 204"

text \<open>A string, \<open>null\<close> or \<open>undefined\<close> inside a template literal.\<close>

definition template :: "string option \<Rightarrow> string" where
  "template x = (case x of None \<Rightarrow> ''undefined'' | Some s \<Rightarrow> s)"

definition plainText :: "nat \<Rightarrow> string \<Rightarrow> response" where
  "plainText st msg =
     \<lparr>res_status = st, res_contentType = Some ''text/plain'', res_etag = None, res_body = Text msg\<rparr>"

definition handleUpdateError :: "AutoServiceError \<Rightarrow> response" where
  "handleUpdateError err =
     (case err of
        AutoInvalid messages \<Rightarrow>
          \<lparr>res_status = BAD_REQUEST, res_contentType = None, res_etag = None,
           res_body = Messages messages\<rparr>
      | AutoNotExists i \<Rightarrow>
          plainText PRECONDITION_FAILED
            (''Es gibt kein Auto mit der ID '' @ [DQUOTE] @ i @ [DQUOTE] @ ''.'')
      | ModellExists m i \<Rightarrow>
          plainText BAD_REQUEST
            (''Das Modell '' @ [DQUOTE] @ template m @ [DQUOTE] @ '' existiert bereits.'')
      | VersionInvalid version \<Rightarrow>
          plainText PRECONDITION_FAILED
            (''Die Versionsnummer '' @ [DQUOTE] @ template version @ [DQUOTE] @ '' ist ungueltig.'')
      | VersionOutdated i version \<Rightarrow>
          plainText PRECONDITION_FAILED
            (''Die Versionsnummer '' @ [DQUOTE] @ number_toString version @ [DQUOTE]
               @ '' ist nicht aktuell.'')
      | ModellNrExists nr i \<Rightarrow>
          \<lparr>res_status = 500, res_contentType = None, res_etag = None, res_body = NoBody\<rparr>)"

text \<open>
  \<open>AutoWriteController.update\<close>: the header \<open>If-Match\<close> is \<open>version\<close>; without it the request
  is answered before the service is called.
\<close>

definition controller_update ::
  "(auto \<Rightarrow> string list) \<Rightarrow> auto \<Rightarrow> string \<Rightarrow> string option \<Rightarrow> collection
     \<Rightarrow> (js_exn + response) \<times> collection" where
  "controller_update validate a i version db =
     (case version of
        None \<Rightarrow> (Inr (plainText PRECONDITION_REQUIRED (''Header '' @ [DQUOTE] @ ''If-Match'' @ [DQUOTE] @ '' fehlt'')), db)
      | Some v \<Rightarrow>
          (case update validate i a (Some v) db of
             (Failed err, db') \<Rightarrow> (Inr (handleUpdateError err), db')
           | (Thrown x, db') \<Rightarrow> (Inl x, db')
           | (Returned result, db') \<Rightarrow>
               (Inr \<lparr>res_status = NO_CONTENT, res_contentType = None,
                     res_etag = Some ([DQUOTE] @ template (map_option showInt result) @ [DQUOTE]),
                     res_body = NoBody\<rparr>, db')))"

subsection \<open>GraphQL\<close>

datatype 'a gql_result = UserInputError string | Value 'a | Rejected js_exn

fun join :: "string list \<Rightarrow> string" where
  "join [] = []"
| "join [m] = m"
| "join (m # ms) = m @ '' '' @ join ms"

definition errorMsgUpdateAuto :: "AutoServiceError \<Rightarrow> string" where
  "errorMsgUpdateAuto err =
     (case err of
        AutoInvalid messages \<Rightarrow> join messages
      | ModellExists m i \<Rightarrow>
          ''Das Modell '' @ [DQUOTE] @ template m @ [DQUOTE] @ '' existiert bereits''
      | AutoNotExists i \<Rightarrow> ''Es gibt kein Auto mit der ID '' @ i
      | VersionInvalid version \<Rightarrow>
          [DQUOTE] @ template version @ [DQUOTE] @ '' ist keine gueltige Versionsnummer''
      | VersionOutdated i version \<Rightarrow>
          ''Die Versionsnummer '' @ [DQUOTE] @ number_toString version @ [DQUOTE]
            @ '' ist nicht mehr aktuell''
      | ModellNrExists nr i \<Rightarrow> ''Unbekannter Fehler'')"

text \<open>
  \<open>AutoMutationResolver.update\<close>: the version of the input is optional, and
  \<open>version ?? 0\<close> stands in for a missing one.
\<close>

definition resolver_update ::
  "(auto \<Rightarrow> string list) \<Rightarrow> string \<Rightarrow> int option \<Rightarrow> auto \<Rightarrow> collection
     \<Rightarrow> int option gql_result \<times> collection" where
  "resolver_update validate i version a db =
     (let versionStr = [DQUOTE] @ showInt (case version of None \<Rightarrow> 0 | Some n \<Rightarrow> n) @ [DQUOTE]
      in case update validate i a (Some versionStr) db of
           (Failed err, db') \<Rightarrow> (UserInputError (errorMsgUpdateAuto err), db')
         | (Thrown x, db') \<Rightarrow> (Rejected x, db')
         | (Returned result, db') \<Rightarrow> (Value result, db'))"

section \<open>The read service\<close>

text \<open>
  A filter is the object of query parameters; a value is a string, or an array of strings
  when the parameter is repeated. The database filter that \<open>find\<close> builds from it can hold a
  regular expression as well.
\<close>

datatype filter_value = FStr string | FArr "string list" | FRegExp string

type_synonym filter = "(string \<times> filter_value) list"

datatype store_query = FindAllSorted | FindFilter filter

definition exactFilterProperties :: "string list" where
  "exactFilterProperties =
     [''verbrauch'', ''typ'', ''marke'', ''preis'', ''rabatt'', ''lieferbar'', ''datum'',
      ''modellnr'', ''homepage'']"

definition checkInvalidProperty :: "filter \<Rightarrow> bool" where
  "checkInvalidProperty dbFilter =
     list_ex (\<lambda>key. key \<notin> set exactFilterProperties) (map fst dbFilter)"

text \<open>Assignment to a property of an object.\<close>

fun set_property :: "string \<Rightarrow> filter_value \<Rightarrow> filter \<Rightarrow> filter" where
  "set_property k v [] = [(k, v)]"
| "set_property k v ((k', v') # rest) =
     (if k' = k then (k, v) # rest else (k', v') # set_property k v rest)"

text \<open>
  The query that \<open>find\<close> sends to the model, or \<open>None\<close> when it returns the empty array
  without one.
\<close>

definition find_query :: "filter option \<Rightarrow> store_query option" where
  "find_query flt =
     (case flt of
        None \<Rightarrow> Some FindAllSorted
      | Some f \<Rightarrow>
          if length f = 0 then Some FindAllSorted
          else
            (let dbFilter = filter (\<lambda>(k, v). k \<notin> {''modell'', ''javascript'', ''typescript''}) f
             in if checkInvalidProperty dbFilter then None
                else
                  (let dbFilter1 =
                         (case map_of f ''modell'' of
                            Some (FStr m) \<Rightarrow>
                              set_property ''modell''
                                (if length m < 10 then FRegExp m else FStr m) dbFilter
                          | _ \<Rightarrow> dbFilter);
                       orte =
                         (if map_of f ''javascript'' = Some (FStr ''true'') then [''ESSLINGEN''] else [])
                         @ (if map_of f ''typescript'' = Some (FStr ''true'') then [''FRANKFURZ''] else []);
                       dbFilter2 =
                         (if length orte = 0 then
                            (case map_of dbFilter1 ''herstellorte'' of
                               Some (FArr xs) \<Rightarrow> set_property ''herstellorte'' (FArr []) dbFilter1
                             | _ \<Rightarrow> dbFilter1)
                          else set_property ''herstellorte'' (FArr orte) dbFilter1)
                   in Some (FindFilter dbFilter2))))"

text \<open>
  \<open>find\<close> of the read service. How the database answers a query is the argument \<open>run\<close>.
\<close>

definition find_autos ::
  "(store_query \<Rightarrow> collection \<Rightarrow> auto_document list) \<Rightarrow> filter option \<Rightarrow> collection
     \<Rightarrow> auto_document list" where
  "find_autos run flt db = (case find_query flt of None \<Rightarrow> [] | Some q \<Rightarrow> run q db)"

text \<open>\<open>findById\<close> of the read service.\<close>

definition findById :: "string \<Rightarrow> collection \<Rightarrow> auto_document option" where
  "findById idStr db = (if \<not> ObjectID_isValid idStr then None else model_findById idStr db)"

section \<open>Sample data\<close>

text \<open>
  Two of the documents of \<open>testdaten.ts\<close>, a candidate in the manner of the update tests, and a
  validation that has nothing to complain about.
\<close>

definition id_alpha :: string where
  "id_alpha = ''000000000000000000000001''"

definition id_beta :: string where
  "id_beta = ''000000000000000000000002''"

definition idNichtVorhanden :: string where
  "idNichtVorhanden = ''999999999999999999999999''"

definition alpha :: auto where
  "alpha =
     \<lparr>modell = Some ''Alpha'', verbrauch = Some 4, auto_typ = Some ''SPORTWAGEN'',
      marke = Some ''AUDI'', preis = Some 11.1, rabatt = Some 0.011, lieferbar = Some True,
      datum = Some ''2021-02-01'', modellnr = Some ''9783897225831'',
      homepage = Some ''https://acme.at/'', herstellorte = Some [''ESSLINGEN''],
      dunder_v = Some 0\<rparr>"

definition beta :: auto where
  "beta =
     \<lparr>modell = Some ''Beta'', verbrauch = Some 2, auto_typ = Some ''FAMILIENKUTSCHE'',
      marke = Some ''BMW'', preis = Some 22.2, rabatt = Some 0.022, lieferbar = Some True,
      datum = Some ''2021-02-02'', modellnr = Some ''9783827315526'',
      homepage = Some ''https://acme.biz/'', herstellorte = Some [''FRANKFURZ''],
      dunder_v = Some 0\<rparr>"

definition geaendertesAuto :: auto where
  "geaendertesAuto =
     \<lparr>modell = Some ''Geaendert'', verbrauch = Some 1, auto_typ = Some ''SPORTWAGEN'',
      marke = Some ''AUDI'', preis = Some 33.33, rabatt = Some 0.033, lieferbar = Some True,
      datum = Some ''2016-02-03'', modellnr = None,
      homepage = Some ''https://test.te'', herstellorte = Some [''ESSLINGEN'', ''FRANKFURZ''],
      dunder_v = None\<rparr>"

definition testdaten :: collection where
  "testdaten = [\<lparr>doc_id = id_alpha, props = alpha\<rparr>, \<lparr>doc_id = id_beta, props = beta\<rparr>]"

definition no_violations :: "auto \<Rightarrow> string list" where
  "no_violations a = []"

definition token_0 :: string where
  "token_0 = [DQUOTE, CHR ''0'', DQUOTE]"

text \<open>The collection after one update of the first document.\<close>

definition testdaten_v1 :: collection where
  "testdaten_v1 =
     [\<lparr>doc_id = id_alpha, props = alpha\<lparr>dunder_v := Some 1\<rparr>\<rparr>, \<lparr>doc_id = id_beta, props = beta\<rparr>]"

text \<open>A run of update calls, one after the other, each on the collection the last one left.\<close>

fun updates ::
  "(auto \<Rightarrow> string list) \<Rightarrow> (string \<times> auto \<times> string option) list \<Rightarrow> collection \<Rightarrow> collection" where
  "updates validate [] db = db"
| "updates validate ((i, a, version) # calls) db =
     updates validate calls (snd (update validate i a version db))"

text \<open>A new candidate, and a changed one that tries to set the version and the external identifier.\<close>

definition neuesAuto :: auto where
  "neuesAuto =
     \<lparr>modell = Some ''Neu'', verbrauch = Some 1, auto_typ = Some ''SPORTWAGEN'',
      marke = Some ''AUDI'', preis = Some 99.99, rabatt = Some 0.099, lieferbar = Some True,
      datum = Some ''2016-02-28'', modellnr = Some ''0-0070-0644-6'',
      homepage = Some ''https://test.de/'', herstellorte = Some [''ESSLINGEN'', ''FRANKFURZ''],
      dunder_v = Some 5\<rparr>"

definition ueberschriebenesAuto :: auto where
  "ueberschriebenesAuto =
     geaendertesAuto\<lparr>modellnr := Some ''9780201633610'', dunder_v := Some 7\<rparr>"

section \<open>Facts about the model class\<close>

lemma hooks_result:
  "optimistic (Some (setTimestampsOnUpdate
       \<lparr>uq_top = a, uq_set = None, uq_setOnInsert = None, uq_inc_v = None\<rparr>)) =
   Inr (Some \<lparr>uq_top = a\<lparr>dunder_v := None\<rparr>,
              uq_set = Some \<lparr>op_v = None, op_others = 1\<rparr>,
              uq_setOnInsert = Some \<lparr>op_v = None, op_others = 1\<rparr>,
              uq_inc_v = Some 1\<rparr>)"
  by (simp add: optimistic_def setTimestampsOnUpdate_def add_timestamp_def optimistic_key_def)

lemma applyUpdate_hooked:
  "applyUpdate \<lparr>uq_top = a\<lparr>dunder_v := None\<rparr>,
              uq_set = Some \<lparr>op_v = None, op_others = 1\<rparr>,
              uq_setOnInsert = Some \<lparr>op_v = None, op_others = 1\<rparr>,
              uq_inc_v = Some 1\<rparr> d
     = Inr (d\<lparr>props := a\<lparr>modellnr := modellnr (props d),
                            dunder_v := Some (versionDb d + 1)\<rparr>\<rparr>)"
  by (simp add: applyUpdate_def orElse_def Let_def)

lemma find_doc_id: "find (\<lambda>d. doc_id d = j) db = Some d \<Longrightarrow> doc_id d = j"
  by (induction db) (auto split: if_splits)

lemma find_replaceById_same:
  "find (\<lambda>d. doc_id d = j) db = Some d \<Longrightarrow> doc_id d' = j
     \<Longrightarrow> find (\<lambda>d. doc_id d = j) (replaceById j d' db) = Some d'"
  by (induction db) (auto split: if_splits)

lemma find_replaceById_other:
  "doc_id d' = i \<Longrightarrow> j \<noteq> i
     \<Longrightarrow> find (\<lambda>d. doc_id d = j) (replaceById i d' db) = find (\<lambda>d. doc_id d = j) db"
  by (induction db) auto

lemma find_after_update:
  assumes "model_findById i db = Some stored"
  shows "model_findById i (replaceById (ObjectID i) (stored\<lparr>props := p\<rparr>) db)
           = Some (stored\<lparr>props := p\<rparr>)"
proof -
  have "doc_id (stored\<lparr>props := p\<rparr>) = ObjectID i"
    using assms find_doc_id by (simp add: model_findById_def)
  with assms show ?thesis
    by (simp add: model_findById_def find_replaceById_same)
qed

lemma findByIdAndUpdate_None:
  "model_findById i db = None \<Longrightarrow> findByIdAndUpdate i a db = Inr (None, db)"
  by (simp add: findByIdAndUpdate_def hooks_result)

lemma findByIdAndUpdate_Some:
  assumes "model_findById i db = Some d"
  shows "findByIdAndUpdate i a db
           = Inr (Some (d\<lparr>props := a\<lparr>modellnr := modellnr (props d),
                                      dunder_v := Some (versionDb d + 1)\<rparr>\<rparr>),
                  replaceById (ObjectID i)
                    (d\<lparr>props := a\<lparr>modellnr := modellnr (props d),
                                    dunder_v := Some (versionDb d + 1)\<rparr>\<rparr>) db)"
  using assms
  by (simp add: findByIdAndUpdate_def hooks_result applyUpdate_hooked [simplified])

section \<open>Facts about the write service\<close>

lemma validateUpdate_passes:
  assumes "validateVersion version = Inr v" "validate a = []"
    and "\<forall>owner. findOne_modell (modell a) db = Some owner \<longrightarrow> doc_id owner = i"
  shows "validateUpdate validate a i version db = checkIdAndVersion i v db"
  using assms
  by (auto simp: validateUpdate_def checkModellExists_def split: option.splits)

lemma validateUpdate_None_found:
  "validateUpdate validate a i version db = None \<Longrightarrow> \<exists>d. model_findById i db = Some d"
  by (auto simp: validateUpdate_def checkIdAndVersion_def Let_def
      split: sum.splits option.splits if_splits)

lemma update_after_validation:
  assumes "ObjectID_isValid i" "validateUpdate validate a i version db = None"
    and "model_findById i db = Some d"
  shows "update validate i a version db
           = (Returned (Some (versionDb d + 1)),
              replaceById (ObjectID i)
                (d\<lparr>props := a\<lparr>modellnr := modellnr (props d),
                                dunder_v := Some (versionDb d + 1)\<rparr>\<rparr>) db)"
  using assms by (simp add: update_def findByIdAndUpdate_Some)

lemma sample_ids_valid:
  "ObjectID_isValid id_alpha" "ObjectID_isValid id_beta" "ObjectID_isValid idNichtVorhanden"
  by (simp_all add: ObjectID_isValid_def isHexDigit_def id_alpha_def id_beta_def
      idNichtVorhanden_def)

lemma sample_ids_canonical:
  "ObjectID id_alpha = id_alpha" "ObjectID id_beta = id_beta"
  "ObjectID idNichtVorhanden = idNichtVorhanden"
  by (simp_all add: ObjectID_def toLowerHex_def id_alpha_def id_beta_def idNichtVorhanden_def)

lemma token_0_parses: "validateVersion (Some token_0) = Inr (Num 0)"
  by (simp add: validateVersion_def VERSION_PATTERN_test_def parseInt_def slice_1_m1_def
      isDigit_def isWhiteSpace_def digitsToNat_def digitVal_def token_0_def)

section \<open>The version check\<close>




section \<open>The identifier guard of update\<close>

text \<open>
  C10, as stated, fails. The guard of \<open>update\<close> is \<open>ObjectID.isValid\<close>, and it accepts any
  string of 12 characters as the bytes of an identifier. For such an identifier, which is
  no string of 24 hexadecimal digits, the update gets as far as the version token and the
  validation: with a malformed or absent token the result is \<open>VersionInvalid\<close>, and with a
  well-formed token and a candidate that the validation complains about it is
  \<open>AutoInvalid\<close>.
\<close>

theorem update_guard_counterexample:
  "length ''abcdefghijkl'' \<noteq> 24
   \<and> update no_violations ''abcdefghijkl'' alpha (Some ''-1'') testdaten
       = (Failed (VersionInvalid (Some ''-1'')), testdaten)
   \<and> update no_violations ''abcdefghijkl'' alpha None testdaten
       = (Failed (VersionInvalid None), testdaten)
   \<and> update (\<lambda>a. [''Invalid'']) ''abcdefghijkl'' alpha (Some token_0) testdaten
       = (Failed (AutoInvalid [''Invalid'']), testdaten)"
proof -
  have ok: "ObjectID_isValid ''abcdefghijkl''" by (simp add: ObjectID_isValid_def)
  have bad: "validateVersion (Some ''-1'') = Inl (VersionInvalid (Some ''-1''))"
    by (simp add: validateVersion_def VERSION_PATTERN_test_def)
  have none: "validateVersion None = Inl (VersionInvalid None)"
    by (simp add: validateVersion_def)
  from ok bad none token_0_parses show ?thesis
    by (simp add: update_def validateUpdate_def)
qed

text \<open>
  C10, amended. When the guard \<open>ObjectID.isValid\<close> rejects the identifier (it is neither a
  string of 24 hexadecimal digits nor a string of 12 characters), \<open>update\<close> returns
  \<open>AutoNotExists\<close> with that identifier and leaves the collection alone, whatever the
  version token (well-formed, malformed or absent), the candidate and the answer of the
  validation are.
\<close>

theorem update_malformed_id:
  "\<not> ObjectID_isValid i \<Longrightarrow> update validate i a version db = (Failed (AutoNotExists i), db)"
  by (simp add: update_def)

theorem update_malformed_id_witness:
  "\<not> ObjectID_isValid ''abc''
   \<and> update (\<lambda>a. [''Invalid'']) ''abc'' alpha None testdaten
       = (Failed (AutoNotExists ''abc''), testdaten)
   \<and> update (\<lambda>a. [''Invalid'']) ''abc'' alpha (Some ''-1'') testdaten
       = (Failed (AutoNotExists ''abc''), testdaten)"
proof -
  have h: "\<not> ObjectID_isValid ''abc''" by (simp add: ObjectID_isValid_def)
  show ?thesis
    using h update_malformed_id [OF h, of "\<lambda>a. [''Invalid'']" alpha None testdaten]
      update_malformed_id [OF h, of "\<lambda>a. [''Invalid'']" alpha "Some ''-1''" testdaten]
    by simp
qed

section \<open>No exception from update\<close>

lemma update_never_thrown: "fst (update validate i a version db) \<noteq> Thrown x"
proof (cases "model_findById i db")
  case None
  then show ?thesis
    by (simp add: update_def findByIdAndUpdate_None split: option.splits)
next
  case (Some d)
  then show ?thesis
    by (simp add: update_def findByIdAndUpdate_Some split: option.splits)
qed

section \<open>The parser of the version token\<close>

text \<open>
  What the parser accepts: the tokens that begin with a double quote, any number of digits
  and a double quote. A token of digits between two double quotes yields their value, and
  a token that fails the pattern is reported with its raw text.
\<close>

lemma isDigit_not_special:
  "isDigit c \<Longrightarrow> c \<noteq> DQUOTE \<and> c \<noteq> CHR ''-'' \<and> c \<noteq> CHR ''+'' \<and> \<not> isWhiteSpace c"
  by (auto simp: isDigit_def isWhiteSpace_def)

lemma validateVersion_quoted_digits:
  assumes "ds \<noteq> []" "list_all isDigit ds"
  shows "validateVersion (Some (DQUOTE # ds @ [DQUOTE])) = Inr (Num (int (digitsToNat ds)))"
proof -
  from assms obtain c cs where ds: "ds = c # cs" by (cases ds) auto
  with assms(2) have c: "isDigit c" by simp
  have all: "\<And>x. x \<in> set ds \<Longrightarrow> isDigit x"
    using assms(2) by (simp add: list_all_iff)
  have "dropWhile isDigit (ds @ [DQUOTE]) = [DQUOTE]"
    using all by (simp add: dropWhile_append2 isDigit_def)
  then have pat: "VERSION_PATTERN_test (DQUOTE # ds @ [DQUOTE])"
    by (simp add: VERSION_PATTERN_test_def)
  have sl: "slice_1_m1 (DQUOTE # ds @ [DQUOTE]) = ds"
    by (simp add: slice_1_m1_def butlast_append)
  have tw: "takeWhile isDigit ds = ds"
    using all by (simp add: takeWhile_eq_all_conv)
  have "parseInt ds = Num (int (digitsToNat ds))"
    using isDigit_not_special [OF c] tw assms(1)
    by (simp add: parseInt_def ds)
  with pat sl show ?thesis by (simp add: validateVersion_def)
qed

lemma validateVersion_rejects:
  "\<not> VERSION_PATTERN_test s \<Longrightarrow> validateVersion (Some s) = Inl (VersionInvalid (Some s))"
  by (simp add: validateVersion_def)

lemma VERSION_PATTERN_test_iff:
  "VERSION_PATTERN_test s \<longleftrightarrow>
     (\<exists>ds rest. s = DQUOTE # ds @ DQUOTE # rest \<and> list_all isDigit ds)"
proof
  assume "VERSION_PATTERN_test s"
  then obtain cs where s: "s = DQUOTE # cs"
    and d: "case dropWhile isDigit cs of [] \<Rightarrow> False | d # _ \<Rightarrow> d = DQUOTE"
    by (auto simp: VERSION_PATTERN_test_def split: list.splits)
  then obtain rest where r: "dropWhile isDigit cs = DQUOTE # rest"
    by (auto split: list.splits)
  have "cs = takeWhile isDigit cs @ dropWhile isDigit cs" by simp
  with r have "cs = takeWhile isDigit cs @ DQUOTE # rest" by simp
  moreover have "list_all isDigit (takeWhile isDigit cs)"
    by (auto simp: list_all_iff dest: set_takeWhileD)
  ultimately show "\<exists>ds rest. s = DQUOTE # ds @ DQUOTE # rest \<and> list_all isDigit ds"
    using s by blast
next
  assume "\<exists>ds rest. s = DQUOTE # ds @ DQUOTE # rest \<and> list_all isDigit ds"
  then obtain ds rest where s: "s = DQUOTE # ds @ DQUOTE # rest" and a: "list_all isDigit ds"
    by blast
  have "dropWhile isDigit (ds @ DQUOTE # rest) = DQUOTE # rest"
    using a by (simp add: dropWhile_append2 list_all_iff isDigit_def)
  with s show "VERSION_PATTERN_test s" by (simp add: VERSION_PATTERN_test_def)
qed

text \<open>
  C2. The claim is that exactly the tokens made of a decimal integer between two double
  quotes are accepted, and that every other token gives \<open>VersionInvalid\<close>. The code accepts
  more. The token of two double quotes with nothing between them passes
  \<open>VERSION_PATTERN\<close>, the parsed version is \<open>NaN\<close>, no comparison with \<open>NaN\<close> holds, and
  the update of a document stored with version 1 goes through and returns 2. A token that
  goes on after the closing quote passes as well.
\<close>

theorem validateVersion_empty_digits:
  "validateVersion (Some [DQUOTE, DQUOTE]) = Inr NaN
   \<and> fst (update no_violations id_alpha geaendertesAuto (Some [DQUOTE, DQUOTE]) testdaten_v1)
       = Returned (Some 2)
   \<and> validateVersion (Some ([DQUOTE, CHR ''7'', DQUOTE] @ ''abc'')) = Inr (Num 7)"
proof -
  have nan: "validateVersion (Some [DQUOTE, DQUOTE]) = Inr NaN"
    by (simp add: validateVersion_def VERSION_PATTERN_test_def parseInt_def slice_1_m1_def
        isDigit_def)
  have found: "model_findById id_alpha testdaten_v1
              = Some \<lparr>doc_id = id_alpha, props = alpha\<lparr>dunder_v := Some 1\<rparr>\<rparr>"
    by (simp add: model_findById_def testdaten_v1_def sample_ids_canonical)
  have free: "\<forall>owner. findOne_modell (modell geaendertesAuto) testdaten_v1 = Some owner
              \<longrightarrow> doc_id owner = id_alpha"
    by (simp add: findOne_modell_def testdaten_v1_def geaendertesAuto_def alpha_def beta_def)
  have "validateUpdate no_violations geaendertesAuto id_alpha (Some [DQUOTE, DQUOTE]) testdaten_v1
          = checkIdAndVersion id_alpha NaN testdaten_v1"
    using nan _ free by (rule validateUpdate_passes) (simp add: no_violations_def)
  then have ok: "validateUpdate no_violations geaendertesAuto id_alpha (Some [DQUOTE, DQUOTE])
          testdaten_v1 = None"
    using found by (simp add: checkIdAndVersion_def)
  have upd: "fst (update no_violations id_alpha geaendertesAuto (Some [DQUOTE, DQUOTE]) testdaten_v1)
       = Returned (Some 2)"
    using update_after_validation [OF sample_ids_valid(1) ok found]
    by (auto simp: versionDb_def alpha_def)
  have seven: "validateVersion (Some ([DQUOTE, CHR ''7'', DQUOTE] @ ''abc'')) = Inr (Num 7)"
    by (simp add: validateVersion_def VERSION_PATTERN_test_def parseInt_def slice_1_m1_def
        isDigit_def isWhiteSpace_def digitsToNat_def digitVal_def)
  from nan upd seven show ?thesis by simp
qed

section \<open>The order of the checks\<close>

text \<open>
  C6. \<open>create\<close> checks in a fixed order. A candidate with complaints from the validation
  gives \<open>AutoInvalid\<close> with those messages. A candidate that passes the validation and whose
  natural key and external identifier are both in use gives \<open>ModellExists\<close>, not
  \<open>ModellNrExists\<close>; the latter is the result when only the external identifier is in use.
  The collection stays as it was in each case.
\<close>

theorem create_check_order:
  "(validate a \<noteq> [] \<longrightarrow> create validate newId a db = (Failed (AutoInvalid (validate a)), db))
   \<and> (validate a = [] \<and> exists_modell (modell a) db \<and> exists_modellnr (modellnr a) db \<longrightarrow>
        create validate newId a db = (Failed (ModellExists (modell a) None), db))
   \<and> (validate a = [] \<and> \<not> exists_modell (modell a) db \<and> exists_modellnr (modellnr a) db \<longrightarrow>
        create validate newId a db = (Failed (ModellNrExists (modellnr a) None), db))"
  by (simp add: create_def validateCreate_def)

theorem create_check_order_witness:
  "no_violations alpha = [] \<and> exists_modell (modell alpha) testdaten
   \<and> exists_modellnr (modellnr alpha) testdaten
   \<and> create no_violations idNichtVorhanden alpha testdaten
       = (Failed (ModellExists (Some ''Alpha'') None), testdaten)"
proof -
  have h: "no_violations alpha = [] \<and> exists_modell (modell alpha) testdaten
             \<and> exists_modellnr (modellnr alpha) testdaten"
    by (simp add: no_violations_def exists_modell_def exists_modellnr_def testdaten_def)
  with create_check_order [of no_violations alpha idNichtVorhanden testdaten]
  have "create no_violations idNichtVorhanden alpha testdaten
       = (Failed (ModellExists (modell alpha) None), testdaten)"
    by blast
  with h show ?thesis by (simp add: alpha_def)
qed

text \<open>
  C5, as stated, fails. The natural key \<open>Alpha\<close> belongs to a stored document and the
  identifier \<open>abc\<close> refers to no document, yet the update returns \<open>AutoNotExists\<close> and not
  \<open>ModellExists\<close>: the guard on the form of the identifier comes before every other check.
\<close>

theorem key_conflict_counterexample:
  "findOne_modell (modell alpha) testdaten = Some \<lparr>doc_id = id_alpha, props = alpha\<rparr>
   \<and> model_findById ''abc'' testdaten = None
   \<and> update no_violations ''abc'' alpha (Some token_0) testdaten
       = (Failed (AutoNotExists ''abc''), testdaten)"
  by (simp add: findOne_modell_def model_findById_def testdaten_def update_def
      ObjectID_isValid_def ObjectID_def toLowerHex_def id_alpha_def id_beta_def)

text \<open>
  C5, amended. For an update with an identifier that the guard accepts, whose version token parses and
  whose candidate passes the validation: when the natural key of the candidate is the key
  of a stored document with another identifier, the result is \<open>ModellExists\<close> with the key
  and the identifier of that document, and the collection stays as it was. Nothing is
  assumed about the targeted identifier: it may refer to no document, or to one with a
  newer version.
\<close>

theorem key_conflict_first:
  assumes "ObjectID_isValid i"
    and "validateVersion version = Inr v"
    and "validate a = []"
    and "findOne_modell (modell a) db = Some owner"
    and "doc_id owner \<noteq> i"
  shows "update validate i a version db
           = (Failed (ModellExists (modell a) (Some (doc_id owner))), db)"
  using assms
  by (simp add: update_def validateUpdate_def checkModellExists_def)

theorem key_conflict_first_witness:
  "ObjectID_isValid idNichtVorhanden
   \<and> model_findById idNichtVorhanden testdaten = None
   \<and> findOne_modell (modell alpha) testdaten = Some \<lparr>doc_id = id_alpha, props = alpha\<rparr>
   \<and> update no_violations idNichtVorhanden alpha (Some token_0) testdaten
       = (Failed (ModellExists (Some ''Alpha'') (Some id_alpha)), testdaten)"
proof -
  have h1: "ObjectID_isValid idNichtVorhanden" by (rule sample_ids_valid)
  have h3: "no_violations alpha = []" by (simp add: no_violations_def)
  have h4: "findOne_modell (modell alpha) testdaten = Some \<lparr>doc_id = id_alpha, props = alpha\<rparr>"
    by (simp add: findOne_modell_def testdaten_def)
  have h5: "doc_id \<lparr>doc_id = id_alpha, props = alpha\<rparr> \<noteq> idNichtVorhanden"
    by (simp add: id_alpha_def idNichtVorhanden_def)
  have none: "model_findById idNichtVorhanden testdaten = None"
    using sample_ids_canonical(3)
    by (simp add: model_findById_def testdaten_def)
      (simp add: id_alpha_def id_beta_def idNichtVorhanden_def)
  from key_conflict_first [where validate = no_violations and a = alpha,
      OF h1 token_0_parses h3 h4 h5]
  have "update no_violations idNichtVorhanden alpha (Some token_0) testdaten
       = (Failed (ModellExists (Some ''Alpha'') (Some id_alpha)), testdaten)"
    by (simp add: alpha_def)
  with h1 none h4 show ?thesis by simp
qed

lemma handleUpdateError_status:
  "res_status (handleUpdateError err) \<in> {BAD_REQUEST, PRECONDITION_FAILED, 500}"
  by (cases err) (simp_all add: handleUpdateError_def plainText_def)

section \<open>The missing version token\<close>

text \<open>
  C3, as stated, fails: not every update without a version fails with the missing
  precondition. The GraphQL mutation puts version 0 in the place of a missing one, and the
  update of a document stored with version 0 goes through and returns 1. The write service
  itself, called without a token, returns \<open>VersionInvalid\<close> with \<open>undefined\<close>.
\<close>

theorem absent_version_counterexample:
  "fst (resolver_update no_violations id_alpha None geaendertesAuto testdaten) = Value (Some 1)
   \<and> fst (update no_violations id_alpha geaendertesAuto None testdaten)
       = Failed (VersionInvalid None)"
proof -
  have tok: "DQUOTE # showInt 0 @ [DQUOTE] = token_0"
    by code_simp
  have found: "model_findById id_alpha testdaten = Some \<lparr>doc_id = id_alpha, props = alpha\<rparr>"
    by (simp add: model_findById_def testdaten_def sample_ids_canonical)
  have free: "\<forall>owner. findOne_modell (modell geaendertesAuto) testdaten = Some owner
              \<longrightarrow> doc_id owner = id_alpha"
    by (simp add: findOne_modell_def testdaten_def geaendertesAuto_def alpha_def beta_def)
  have "validateUpdate no_violations geaendertesAuto id_alpha (Some token_0) testdaten
          = checkIdAndVersion id_alpha (Num 0) testdaten"
    using token_0_parses _ free by (rule validateUpdate_passes) (simp add: no_violations_def)
  then have ok: "validateUpdate no_violations geaendertesAuto id_alpha (Some token_0) testdaten
          = None"
    using found by (simp add: checkIdAndVersion_def versionDb_def alpha_def)
  obtain db' where "update no_violations id_alpha geaendertesAuto (Some token_0) testdaten
       = (Returned (Some 1), db')"
    using update_after_validation [OF sample_ids_valid(1) ok found]
    by (auto simp: versionDb_def alpha_def)
  then have gql: "fst (resolver_update no_violations id_alpha None geaendertesAuto testdaten)
       = Value (Some 1)"
    by (simp add: resolver_update_def tok)
  have svc: "fst (update no_violations id_alpha geaendertesAuto None testdaten)
       = Failed (VersionInvalid None)"
    using sample_ids_valid(1) by (simp add: update_def validateUpdate_def validateVersion_def)
  from gql svc show ?thesis by simp
qed

text \<open>
  C3, amended. An update request at the REST controller without the header \<open>If-Match\<close> is
  answered with status 428 and the text \<open>Header "If-Match" fehlt\<close>, whatever the identifier
  and the candidate are, and the collection stays as it was. No request that carries the
  header is answered with 428; a token that \<open>VersionInvalid\<close> reports is answered with 412.
  The GraphQL mutation treats a missing version as version 0.
\<close>

theorem missing_precondition:
  "controller_update validate a i None db
     = (Inr (plainText PRECONDITION_REQUIRED
               (''Header '' @ [DQUOTE] @ ''If-Match'' @ [DQUOTE] @ '' fehlt'')), db)
   \<and> (\<forall>v r db'. controller_update validate a i (Some v) db = (Inr r, db')
         \<longrightarrow> res_status r \<noteq> PRECONDITION_REQUIRED)
   \<and> res_status (handleUpdateError (VersionInvalid t)) = PRECONDITION_FAILED
   \<and> resolver_update validate i None a db = resolver_update validate i (Some 0) a db"
proof (intro conjI allI impI)
  show "controller_update validate a i None db
     = (Inr (plainText PRECONDITION_REQUIRED
               (''Header '' @ [DQUOTE] @ ''If-Match'' @ [DQUOTE] @ '' fehlt'')), db)"
    by (simp add: controller_update_def)
next
  fix v r db'
  assume c: "controller_update validate a i (Some v) db = (Inr r, db')"
  obtain res db1 where u: "update validate i a (Some v) db = (res, db1)"
    by (cases "update validate i a (Some v) db")
  show "res_status r \<noteq> PRECONDITION_REQUIRED"
  proof (cases res)
    case (Failed err)
    with c u have "r = handleUpdateError err" by (simp add: controller_update_def)
    with handleUpdateError_status [of err] show ?thesis
      by (auto simp: BAD_REQUEST_def PRECONDITION_FAILED_def PRECONDITION_REQUIRED_def)
  next
    case (Returned result)
    with c u have "res_status r = NO_CONTENT" by (auto simp: controller_update_def)
    then show ?thesis by (simp add: NO_CONTENT_def PRECONDITION_REQUIRED_def)
  next
    case (Thrown x)
    with c u show ?thesis by (simp add: controller_update_def)
  qed
next
  show "res_status (handleUpdateError (VersionInvalid t)) = PRECONDITION_FAILED"
    by (simp add: handleUpdateError_def plainText_def)
next
  show "resolver_update validate i None a db = resolver_update validate i (Some 0) a db"
    by (simp add: resolver_update_def)
qed

theorem missing_precondition_witness:
  "fst (controller_update no_violations geaendertesAuto id_alpha None testdaten)
     = Inr \<lparr>res_status = 428, res_contentType = Some ''text/plain'', res_etag = None,
            res_body = Text (''Header '' @ [DQUOTE] @ ''If-Match'' @ [DQUOTE] @ '' fehlt'')\<rparr>
   \<and> snd (controller_update no_violations geaendertesAuto id_alpha None testdaten) = testdaten
   \<and> (\<exists>r db'. controller_update no_violations geaendertesAuto id_alpha (Some ''-1'') testdaten
                 = (Inr r, db') \<and> res_status r = 412 \<and> res_status r \<noteq> PRECONDITION_REQUIRED)"
proof -
  have c: "controller_update no_violations geaendertesAuto id_alpha (Some ''-1'') testdaten
        = (Inr (handleUpdateError (VersionInvalid (Some ''-1''))), testdaten)"
    using sample_ids_valid(1)
    by (simp add: controller_update_def update_def validateUpdate_def validateVersion_def
        VERSION_PATTERN_test_def)
  from missing_precondition [of no_violations geaendertesAuto id_alpha testdaten "Some ''-1''"] c
  show ?thesis
    by (simp add: plainText_def PRECONDITION_REQUIRED_def PRECONDITION_FAILED_def)
qed

section \<open>Deletion\<close>


lemma find_None_removeById:
  "find (\<lambda>d. doc_id d = j) db = None \<Longrightarrow> removeById j db = db"
  by (induction db) (auto split: if_splits)



section \<open>Filters with unknown keys\<close>

text \<open>
  C9. When a filter has a key that is none of \<open>modell\<close>, \<open>javascript\<close>, \<open>typescript\<close> and is
  not in \<open>exactFilterProperties\<close>, \<open>find\<close> sends no query to the model and returns the empty
  array, whatever the database would answer.
\<close>

theorem find_unknown_key:
  assumes "(k, v) \<in> set f"
    and "k \<notin> {''modell'', ''javascript'', ''typescript''}"
    and "k \<notin> set exactFilterProperties"
  shows "find_query (Some f) = None \<and> find_autos run (Some f) db = []"
proof -
  from assms(1) have ne: "length f \<noteq> 0" by auto
  let ?dbFilter = "filter (\<lambda>(k, v). k \<notin> {''modell'', ''javascript'', ''typescript''}) f"
  from assms(1,2) have "(k, v) \<in> set ?dbFilter" by simp
  then have "k \<in> set (map fst ?dbFilter)" by force
  with assms(3) have "checkInvalidProperty ?dbFilter"
    unfolding checkInvalidProperty_def list_ex_iff by blast
  with ne have q: "find_query (Some f) = None"
    by (simp add: find_query_def)
  then show ?thesis by (simp add: find_autos_def)
qed

theorem find_unknown_key_witness:
  "find_query (Some [(''unknownField'', FStr ''x'')]) = None
   \<and> find_autos (\<lambda>q db. db) (Some [(''modell'', FStr ''a''), (''unknownField'', FStr ''x'')])
       testdaten = []"
proof -
  have ex: "''unknownField'' \<notin> set exactFilterProperties"
    by (simp add: exactFilterProperties_def)
  from find_unknown_key [of "''unknownField''" "FStr ''x''" "[(''unknownField'', FStr ''x'')]"] ex
  have w1: "find_query (Some [(''unknownField'', FStr ''x'')]) = None" by simp
  from find_unknown_key [of "''unknownField''" "FStr ''x''"
      "[(''modell'', FStr ''a''), (''unknownField'', FStr ''x'')]" "\<lambda>q db. db" testdaten] ex
  have w2: "find_autos (\<lambda>q db. db)
      (Some [(''modell'', FStr ''a''), (''unknownField'', FStr ''x'')]) testdaten = []"
    by simp
  from w1 w2 show ?thesis by simp
qed

section \<open>What an update call does to the collection\<close>

lemma update_cases:
  "(\<exists>e. update validate i a version db = (Failed e, db))
   \<or> (\<exists>stored. model_findById i db = Some stored
         \<and> update validate i a version db
             = (Returned (Some (versionDb stored + 1)),
                replaceById (ObjectID i)
                  (stored\<lparr>props := a\<lparr>modellnr := modellnr (props stored),
                                       dunder_v := Some (versionDb stored + 1)\<rparr>\<rparr>) db))"
proof (cases "ObjectID_isValid i")
  case False
  then show ?thesis by (simp add: update_def)
next
  case True
  show ?thesis
  proof (cases "validateUpdate validate a i version db")
    case (Some e)
    with True show ?thesis by (simp add: update_def)
  next
    case None
    then obtain stored where "model_findById i db = Some stored"
      using validateUpdate_None_found by blast
    with update_after_validation [OF True None this] show ?thesis by blast
  qed
qed

lemma update_step_frame:
  assumes "model_findById j db = Some d"
  shows "\<exists>d'. model_findById j (snd (update validate i a version db)) = Some d'
           \<and> modellnr (props d') = modellnr (props d)
           \<and> versionDb d \<le> versionDb d'"
proof -
  from update_cases [of validate i a version db]
  consider (failed) e where "update validate i a version db = (Failed e, db)"
    | (updated) stored where "model_findById i db = Some stored"
        "update validate i a version db
             = (Returned (Some (versionDb stored + 1)),
                replaceById (ObjectID i)
                  (stored\<lparr>props := a\<lparr>modellnr := modellnr (props stored),
                                       dunder_v := Some (versionDb stored + 1)\<rparr>\<rparr>) db)"
    by blast
  then show ?thesis
  proof cases
    case failed
    with assms show ?thesis by simp
  next
    case updated
    let ?d' = "stored\<lparr>props := a\<lparr>modellnr := modellnr (props stored),
                                   dunder_v := Some (versionDb stored + 1)\<rparr>\<rparr>"
    have id': "doc_id ?d' = ObjectID i"
      using updated(1) find_doc_id by (simp add: model_findById_def)
    show ?thesis
    proof (cases "ObjectID j = ObjectID i")
      case True
      with assms updated(1) have same: "d = stored" by (simp add: model_findById_def)
      have "model_findById j (replaceById (ObjectID i) ?d' db) = Some ?d'"
        using True find_after_update [OF updated(1)] by (simp add: model_findById_def)
      moreover have "versionDb d \<le> versionDb ?d'"
        using same by (simp add: versionDb_def)
      ultimately show ?thesis using updated(2) same by simp
    next
      case False
      with id' have "model_findById j (replaceById (ObjectID i) ?d' db) = model_findById j db"
        by (simp add: model_findById_def find_replaceById_other)
      with assms updated(2) show ?thesis by simp
    qed
  qed
qed

lemma updates_frame:
  "model_findById j db = Some d \<Longrightarrow>
     \<exists>d'. model_findById j (updates validate calls db) = Some d'
        \<and> modellnr (props d') = modellnr (props d)
        \<and> versionDb d \<le> versionDb d'"
proof (induction calls arbitrary: db d)
  case Nil
  then show ?case by simp
next
  case (Cons c calls)
  obtain i a version where c: "c = (i, a, version)" by (cases c)
  from update_step_frame [OF Cons.prems, of validate i a version]
  obtain d1 where d1: "model_findById j (snd (update validate i a version db)) = Some d1"
    "modellnr (props d1) = modellnr (props d)" "versionDb d \<le> versionDb d1"
    by blast
  from Cons.IH [OF d1(1)]
  obtain d' where "model_findById j (updates validate calls (snd (update validate i a version db)))
        = Some d'" "modellnr (props d') = modellnr (props d1)" "versionDb d1 \<le> versionDb d'"
    by blast
  with d1 c show ?case by auto
qed

lemma removeById_subset: "set (removeById j db) \<subseteq> set db"
  by (induction db) auto

lemma find_append_new:
  "find (\<lambda>d. doc_id d = j) db = None \<Longrightarrow> doc_id saved = j
     \<Longrightarrow> find (\<lambda>d. doc_id d = j) (db @ [saved]) = Some saved"
  by (induction db) (auto split: if_splits)

lemma map_doc_id_replaceById:
  "doc_id d' = j \<Longrightarrow> map doc_id (replaceById j d' db) = map doc_id db"
  by (induction db) auto

lemma distinct_removeById:
  "distinct (map doc_id db) \<Longrightarrow> distinct (map doc_id (removeById j db))"
proof (induction db)
  case Nil
  then show ?case by simp
next
  case (Cons d ds)
  have "doc_id ` set (removeById j ds) \<subseteq> doc_id ` set ds"
    using removeById_subset by blast
  with Cons show ?case by auto
qed

lemma distinct_ids_preserved:
  assumes "distinct (map doc_id db)"
  shows "distinct (map doc_id (snd (update validate i a version db)))"
    and "distinct (map doc_id (snd (delete i db)))"
    and "newId \<notin> doc_id ` set db \<Longrightarrow> distinct (map doc_id (snd (create validate newId a db)))"
proof -
  from update_cases [of validate i a version db]
  show "distinct (map doc_id (snd (update validate i a version db)))"
  proof (elim disjE exE conjE)
    fix e
    assume "update validate i a version db = (Failed e, db)"
    with assms show ?thesis by simp
  next
    fix stored
    assume s: "model_findById i db = Some stored"
      "update validate i a version db
         = (Returned (Some (versionDb stored + 1)),
            replaceById (ObjectID i)
              (stored\<lparr>props := a\<lparr>modellnr := modellnr (props stored),
                                   dunder_v := Some (versionDb stored + 1)\<rparr>\<rparr>) db)"
    have "doc_id stored = ObjectID i"
      using s(1) find_doc_id by (simp add: model_findById_def)
    with assms s(2) show ?thesis by (simp add: map_doc_id_replaceById)
  qed
next
  show "distinct (map doc_id (snd (delete i db)))"
    using assms
    by (simp add: delete_def findByIdAndDelete_def distinct_removeById split: option.splits)
next
  assume "newId \<notin> doc_id ` set db"
  with assms show "distinct (map doc_id (snd (create validate newId a db)))"
    by (simp add: create_def save_def Let_def split: option.splits)
qed

lemma sample_update:
  "update no_violations id_alpha ueberschriebenesAuto (Some token_0) testdaten
     = (Returned (Some 1),
        [\<lparr>doc_id = id_alpha,
          props = geaendertesAuto\<lparr>modellnr := Some ''9783897225831'', dunder_v := Some 1\<rparr>\<rparr>,
         \<lparr>doc_id = id_beta, props = beta\<rparr>])"
  using sample_ids_valid(1) token_0_parses
  by (simp add: update_def validateUpdate_def no_violations_def checkModellExists_def
      findOne_modell_def checkIdAndVersion_def model_findById_def sample_ids_canonical
      testdaten_def findByIdAndUpdate_def hooks_result applyUpdate_def orElse_def versionDb_def
      ueberschriebenesAuto_def geaendertesAuto_def alpha_def beta_def)

lemma sample_create:
  "create no_violations idNichtVorhanden neuesAuto testdaten
     = (Returned idNichtVorhanden,
        testdaten @ [\<lparr>doc_id = idNichtVorhanden, props = neuesAuto\<lparr>dunder_v := Some 0\<rparr>\<rparr>])"
  by (simp add: create_def validateCreate_def no_violations_def exists_modell_def
      exists_modellnr_def save_def Let_def testdaten_def neuesAuto_def alpha_def beta_def)

section \<open>The version counter\<close>

text \<open>
  C4. A created document is appended with version 0, whatever version the candidate
  carried. An update that returns a version found a stored document, and both the version
  it returns and the version stored afterwards are the stored version plus one. Through
  any run of update calls, successful or not, a stored document stays stored and its
  version does not go down. A version in the payload has no effect, neither on the
  insertion nor on the update that the model class carries out. A deletion leaves only
  documents that were there before.
\<close>

theorem version_counter:
  "(create validate newId a db = (Returned r, db') \<longrightarrow>
      (\<exists>saved. db' = db @ [saved] \<and> doc_id saved = r \<and> dunder_v (props saved) = Some 0))
   \<and> (update validate i a version db = (Returned r', db'') \<longrightarrow>
      (\<exists>stored updated. model_findById i db = Some stored
          \<and> model_findById i db'' = Some updated
          \<and> r' = Some (versionDb stored + 1)
          \<and> dunder_v (props updated) = Some (versionDb stored + 1)))
   \<and> (\<forall>j d. model_findById j db = Some d \<longrightarrow>
         (\<exists>d'. model_findById j (updates validate calls db) = Some d'
             \<and> versionDb d \<le> versionDb d'))
   \<and> save newId (a\<lparr>dunder_v := x\<rparr>) db = save newId a db
   \<and> findByIdAndUpdate i (a\<lparr>dunder_v := x\<rparr>) db = findByIdAndUpdate i a db
   \<and> set (snd (delete i db)) \<subseteq> set db"
proof (intro conjI impI allI)
  assume "create validate newId a db = (Returned r, db')"
  then show "\<exists>saved. db' = db @ [saved] \<and> doc_id saved = r \<and> dunder_v (props saved) = Some 0"
    by (auto simp: create_def save_def Let_def split: option.splits)
next
  assume u: "update validate i a version db = (Returned r', db'')"
  from update_cases [of validate i a version db] u
  obtain stored where s: "model_findById i db = Some stored"
    "update validate i a version db
       = (Returned (Some (versionDb stored + 1)),
          replaceById (ObjectID i)
            (stored\<lparr>props := a\<lparr>modellnr := modellnr (props stored),
                                 dunder_v := Some (versionDb stored + 1)\<rparr>\<rparr>) db)"
    by auto
  from u s find_after_update [OF s(1)]
  show "\<exists>stored updated. model_findById i db = Some stored
          \<and> model_findById i db'' = Some updated
          \<and> r' = Some (versionDb stored + 1)
          \<and> dunder_v (props updated) = Some (versionDb stored + 1)"
    by auto
next
  fix j d
  assume "model_findById j db = Some d"
  from updates_frame [OF this, of validate calls]
  show "\<exists>d'. model_findById j (updates validate calls db) = Some d' \<and> versionDb d \<le> versionDb d'"
    by blast
next
  show "save newId (a\<lparr>dunder_v := x\<rparr>) db = save newId a db"
    by (simp add: save_def)
next
  show "findByIdAndUpdate i (a\<lparr>dunder_v := x\<rparr>) db = findByIdAndUpdate i a db"
    by (simp add: findByIdAndUpdate_def hooks_result)
next
  show "set (snd (delete i db)) \<subseteq> set db"
    by (auto simp: delete_def findByIdAndDelete_def split: option.splits
        dest: subsetD [OF removeById_subset])
qed

theorem version_counter_witness:
  "update no_violations id_alpha ueberschriebenesAuto (Some token_0) testdaten
     = (Returned (Some 1),
        [\<lparr>doc_id = id_alpha,
          props = geaendertesAuto\<lparr>modellnr := Some ''9783897225831'', dunder_v := Some 1\<rparr>\<rparr>,
         \<lparr>doc_id = id_beta, props = beta\<rparr>])
   \<and> (\<exists>stored updated. model_findById id_alpha testdaten = Some stored
          \<and> model_findById id_alpha
               [\<lparr>doc_id = id_alpha,
                 props = geaendertesAuto\<lparr>modellnr := Some ''9783897225831'', dunder_v := Some 1\<rparr>\<rparr>,
                \<lparr>doc_id = id_beta, props = beta\<rparr>] = Some updated
          \<and> Some (1::int) = Some (versionDb stored + 1)
          \<and> dunder_v (props updated) = Some (versionDb stored + 1))"
  using sample_update
    version_counter [of no_violations idNichtVorhanden ueberschriebenesAuto testdaten
      idNichtVorhanden "testdaten" id_alpha "Some token_0" "Some 1"
      "[\<lparr>doc_id = id_alpha,
          props = geaendertesAuto\<lparr>modellnr := Some ''9783897225831'', dunder_v := Some 1\<rparr>\<rparr>,
         \<lparr>doc_id = id_beta, props = beta\<rparr>]"]
  by blast

section \<open>The external identifier\<close>

text \<open>
  C7. An update with an identifier that the guard accepts, whose version token parses,
  whose candidate passes the validation, whose natural key belongs to no other document
  and whose version is not behind the stored one, succeeds: it returns the stored version
  plus one, and the document stored afterwards under the identifier has every field of the
  candidate, a field that the candidate does not supply being cleared, except the external
  identifier \<open>modellnr\<close>, which is the stored one whatever the payload holds for it, and the
  version key. Every update that returns a version has done this to a stored document.
  After a document has been created under a fresh identifier, any run of update calls
  leaves it stored with the external identifier of the candidate it was created from.
\<close>

theorem external_id_retained:
  "(ObjectID_isValid i \<and> validateVersion version = Inr v \<and> validate a = []
      \<and> (\<forall>owner. findOne_modell (modell a) db = Some owner \<longrightarrow> doc_id owner = i)
      \<and> model_findById i db = Some stored \<and> \<not> number_less v (versionDb stored) \<longrightarrow>
      update validate i a version db
        = (Returned (Some (versionDb stored + 1)),
           replaceById (ObjectID i)
             (stored\<lparr>props := a\<lparr>modellnr := modellnr (props stored),
                                  dunder_v := Some (versionDb stored + 1)\<rparr>\<rparr>) db)
      \<and> model_findById i (snd (update validate i a version db))
        = Some (stored\<lparr>props := a\<lparr>modellnr := modellnr (props stored),
                                    dunder_v := Some (versionDb stored + 1)\<rparr>\<rparr>))
   \<and> (update validate i a version db = (Returned r, db') \<longrightarrow>
      (\<exists>found. model_findById i db = Some found
          \<and> model_findById i db'
              = Some (found\<lparr>props := a\<lparr>modellnr := modellnr (props found),
                                         dunder_v := Some (versionDb found + 1)\<rparr>\<rparr>)))
   \<and> (create validate newId c db = (Returned r0, db0) \<and> ObjectID newId = newId
        \<and> model_findById newId db = None \<longrightarrow>
      (\<exists>d'. model_findById r0 (updates validate' calls db0) = Some d'
          \<and> modellnr (props d') = modellnr c))"
proof (intro conjI impI)
  assume h: "ObjectID_isValid i \<and> validateVersion version = Inr v \<and> validate a = []
      \<and> (\<forall>owner. findOne_modell (modell a) db = Some owner \<longrightarrow> doc_id owner = i)
      \<and> model_findById i db = Some stored \<and> \<not> number_less v (versionDb stored)"
  then have valid: "ObjectID_isValid i" and found: "model_findById i db = Some stored"
    by simp_all
  from h have "validateUpdate validate a i version db = checkIdAndVersion i v db"
    by (intro validateUpdate_passes) simp_all
  with h have ok: "validateUpdate validate a i version db = None"
    by (simp add: checkIdAndVersion_def)
  show u: "update validate i a version db
        = (Returned (Some (versionDb stored + 1)),
           replaceById (ObjectID i)
             (stored\<lparr>props := a\<lparr>modellnr := modellnr (props stored),
                                  dunder_v := Some (versionDb stored + 1)\<rparr>\<rparr>) db)"
    using valid ok found by (rule update_after_validation)
  show "model_findById i (snd (update validate i a version db))
        = Some (stored\<lparr>props := a\<lparr>modellnr := modellnr (props stored),
                                    dunder_v := Some (versionDb stored + 1)\<rparr>\<rparr>)"
    using u find_after_update [OF found] by simp
next
  assume u: "update validate i a version db = (Returned r, db')"
  from update_cases [of validate i a version db] u
  obtain found where s: "model_findById i db = Some found"
    "update validate i a version db
       = (Returned (Some (versionDb found + 1)),
          replaceById (ObjectID i)
            (found\<lparr>props := a\<lparr>modellnr := modellnr (props found),
                                dunder_v := Some (versionDb found + 1)\<rparr>\<rparr>) db)"
    by auto
  from u s find_after_update [OF s(1)]
  show "\<exists>found. model_findById i db = Some found
          \<and> model_findById i db'
              = Some (found\<lparr>props := a\<lparr>modellnr := modellnr (props found),
                                         dunder_v := Some (versionDb found + 1)\<rparr>\<rparr>)"
    by auto
next
  assume h: "create validate newId c db = (Returned r0, db0) \<and> ObjectID newId = newId
        \<and> model_findById newId db = None"
  let ?saved = "\<lparr>doc_id = newId, props = c\<lparr>dunder_v := Some 0\<rparr>\<rparr>"
  from h have r0: "r0 = newId" and db0: "db0 = db @ [?saved]"
    by (auto simp: create_def save_def Let_def split: option.splits)
  from h have canon: "ObjectID newId = newId" by simp
  from h have "find (\<lambda>d. doc_id d = ObjectID newId) db = None"
    unfolding model_findById_def by blast
  with canon have fresh: "find (\<lambda>d. doc_id d = newId) db = None" by simp
  have "find (\<lambda>d. doc_id d = newId) (db @ [?saved]) = Some ?saved"
    using fresh by (rule find_append_new) simp
  then have "model_findById newId (db @ [?saved]) = Some ?saved"
    using canon by (simp add: model_findById_def)
  from updates_frame [OF this, of validate' calls] r0 db0
  show "\<exists>d'. model_findById r0 (updates validate' calls db0) = Some d'
          \<and> modellnr (props d') = modellnr c"
    by auto
qed

theorem external_id_retained_witness:
  "create no_violations idNichtVorhanden neuesAuto testdaten
     = (Returned idNichtVorhanden,
        testdaten @ [\<lparr>doc_id = idNichtVorhanden, props = neuesAuto\<lparr>dunder_v := Some 0\<rparr>\<rparr>])
   \<and> update no_violations idNichtVorhanden ueberschriebenesAuto (Some token_0)
        (testdaten @ [\<lparr>doc_id = idNichtVorhanden, props = neuesAuto\<lparr>dunder_v := Some 0\<rparr>\<rparr>])
     = (Returned (Some 1),
        testdaten @ [\<lparr>doc_id = idNichtVorhanden,
                      props = geaendertesAuto\<lparr>modellnr := Some ''0-0070-0644-6'',
                                              dunder_v := Some 1\<rparr>\<rparr>])
   \<and> model_findById idNichtVorhanden
        (updates no_violations [(idNichtVorhanden, ueberschriebenesAuto, Some token_0)]
           (testdaten @ [\<lparr>doc_id = idNichtVorhanden, props = neuesAuto\<lparr>dunder_v := Some 0\<rparr>\<rparr>]))
     = Some \<lparr>doc_id = idNichtVorhanden,
             props = geaendertesAuto\<lparr>modellnr := Some ''0-0070-0644-6'', dunder_v := Some 1\<rparr>\<rparr>"
proof -
  let ?db0 = "testdaten @ [\<lparr>doc_id = idNichtVorhanden, props = neuesAuto\<lparr>dunder_v := Some 0\<rparr>\<rparr>]"
  let ?stored = "\<lparr>doc_id = idNichtVorhanden, props = neuesAuto\<lparr>dunder_v := Some 0\<rparr>\<rparr>"
  have ne: "id_alpha \<noteq> idNichtVorhanden" "id_beta \<noteq> idNichtVorhanden"
    by (simp_all add: id_alpha_def id_beta_def idNichtVorhanden_def)
  have h3: "no_violations ueberschriebenesAuto = []" by (simp add: no_violations_def)
  have h4: "\<forall>owner. findOne_modell (modell ueberschriebenesAuto) ?db0 = Some owner
              \<longrightarrow> doc_id owner = idNichtVorhanden"
    by (simp add: findOne_modell_def testdaten_def ueberschriebenesAuto_def geaendertesAuto_def
        neuesAuto_def alpha_def beta_def)
  have h5: "model_findById idNichtVorhanden ?db0 = Some ?stored"
    using ne by (simp add: model_findById_def testdaten_def sample_ids_canonical)
  have h6: "\<not> number_less (Num 0) (versionDb ?stored)" by (simp add: versionDb_def)
  from external_id_retained [where validate = no_violations and a = ueberschriebenesAuto
      and i = idNichtVorhanden and version = "Some token_0" and v = "Num 0" and db = ?db0
      and stored = ?stored]
    sample_ids_valid(3) token_0_parses h3 h4 h5 h6
  have u: "update no_violations idNichtVorhanden ueberschriebenesAuto (Some token_0) ?db0
     = (Returned (Some (versionDb ?stored + 1)),
        replaceById (ObjectID idNichtVorhanden)
          (?stored\<lparr>props := ueberschriebenesAuto\<lparr>modellnr := modellnr (props ?stored),
              dunder_v := Some (versionDb ?stored + 1)\<rparr>\<rparr>) ?db0)"
    by blast
  have r: "replaceById (ObjectID idNichtVorhanden)
          (?stored\<lparr>props := ueberschriebenesAuto\<lparr>modellnr := modellnr (props ?stored),
              dunder_v := Some (versionDb ?stored + 1)\<rparr>\<rparr>) ?db0
        = testdaten @ [\<lparr>doc_id = idNichtVorhanden,
                      props = geaendertesAuto\<lparr>modellnr := Some ''0-0070-0644-6'',
                                              dunder_v := Some 1\<rparr>\<rparr>]"
    using ne
    by (simp add: testdaten_def sample_ids_canonical versionDb_def ueberschriebenesAuto_def
        neuesAuto_def)
  have v: "versionDb ?stored + 1 = 1" by (simp add: versionDb_def)
  from u r v have u': "update no_violations idNichtVorhanden ueberschriebenesAuto (Some token_0) ?db0
     = (Returned (Some 1),
        testdaten @ [\<lparr>doc_id = idNichtVorhanden,
                      props = geaendertesAuto\<lparr>modellnr := Some ''0-0070-0644-6'',
                                              dunder_v := Some 1\<rparr>\<rparr>])"
    by simp
  have f: "model_findById idNichtVorhanden
        (testdaten @ [\<lparr>doc_id = idNichtVorhanden,
                      props = geaendertesAuto\<lparr>modellnr := Some ''0-0070-0644-6'',
                                              dunder_v := Some 1\<rparr>\<rparr>])
     = Some \<lparr>doc_id = idNichtVorhanden,
             props = geaendertesAuto\<lparr>modellnr := Some ''0-0070-0644-6'', dunder_v := Some 1\<rparr>\<rparr>"
    using ne by (simp add: model_findById_def testdaten_def sample_ids_canonical)
  from sample_create u' f show ?thesis by simp
qed


end
